theory Spec2Isabelle
  imports Main "HOL-Library.Word"
begin

section \<open>Values of package common and math/big\<close>

text \<open>
  The interpreter of core/vm/vm.go computes with arbitrary-precision integers
  (\<open>*big.Int\<close>), modelled as \<open>int\<close>. \<open>common.Hash\<close> is the 32-byte storage word
  and \<open>common.Address\<close> the 20-byte account address of package common; both are
  fixed-width words here. Byte strings are lists of 8-bit words, \<open>nil\<close> being \<open>[]\<close>.
\<close>

type_synonym hash = "256 word"
type_synonym address = "160 word"
type_synonym bytes = "8 word list"

text \<open>
  \<open>common.BigToHash\<close> and \<open>common.BigToAddress\<close> take the big-endian bytes of the
  magnitude (\<open>b.Bytes()\<close>) and keep the lowest 32, respectively 20, of them.
  \<open>Hash.Big\<close> reads the 32 bytes back as an unsigned number and
  \<open>common.EmptyHash\<close> compares with the all-zero hash.
\<close>

definition BigToHash :: "int \<Rightarrow> hash" where
  "BigToHash b = word_of_int \<bar>b\<bar>"

definition BigToAddress :: "int \<Rightarrow> address" where
  "BigToAddress b = word_of_int \<bar>b\<bar>"

definition Big :: "hash \<Rightarrow> int" where
  "Big h = uint h"

definition EmptyHash :: "hash \<Rightarrow> bool" where
  "EmptyHash h = (h = 0)"

text \<open>\<open>common.BigMax\<close> returns the larger of two numbers.\<close>

definition BigMax :: "int \<Rightarrow> int \<Rightarrow> int" where
  "BigMax x y = (if x < y then y else x)"

text \<open>
  \<open>big.Int.BitLen\<close> is the length of the magnitude in bits (0 for the number 0),
  \<open>len(x.Bytes())\<close> its length in bytes; \<open>Uint64\<close> keeps the low 64 bits of the
  magnitude and \<open>Int64\<close> the low 64 bits of the two's complement value.
\<close>

fun bitlen_nat :: "nat \<Rightarrow> nat" where
  "bitlen_nat n = (if n = 0 then 0 else Suc (bitlen_nat (n div 2)))"

definition BitLen :: "int \<Rightarrow> nat" where
  "BitLen x = bitlen_nat (nat \<bar>x\<bar>)"

definition BytesLen :: "int \<Rightarrow> nat" where
  "BytesLen x = (BitLen x + 7) div 8"

definition Uint64 :: "int \<Rightarrow> 64 word" where
  "Uint64 x = word_of_int \<bar>x\<bar>"

definition Int64 :: "int \<Rightarrow> 64 word" where
  "Int64 x = word_of_int x"

section \<open>The EIP-1283 gas and refund rule\<close>

text \<open>
  \<open>eip1283sstoreGas\<close> (vm.go, lines 435-486). The source starts the refund counter
  at 0 and adds to or subtracts from it in place; the model threads the counter
  through the same sequence of conditional updates. The result is the pair
  \<open>(g, refundCounter)\<close>.
\<close>

definition eip1283sstoreGas :: "int \<Rightarrow> int \<Rightarrow> int \<Rightarrow> int \<times> int" where
  "eip1283sstoreGas originalValue currentValue newValue =
    (let refundCounter = 0 in
     if newValue = currentValue then (200, refundCounter)
     else if originalValue = currentValue then
       (if originalValue = 0 then (20000, refundCounter)
        else (5000, if newValue = 0 then refundCounter + 15000 else refundCounter))
     else
       (let r1 = (if originalValue \<noteq> 0
                  then (let ra = (if currentValue = 0 then refundCounter - 15000 else refundCounter)
                        in if newValue = 0 then ra + 15000 else ra)
                  else refundCounter);
            r2 = (if originalValue = newValue
                  then (if originalValue = 0 then r1 + 19800 else r1 + 4800)
                  else r1)
        in (200, r2)))"

section \<open>Opcodes, errors and the state of a frame\<close>

text \<open>
  \<open>OpCode\<close> is a byte in the source; the constants of opcodes.go are constructors
  here. \<open>SWAP n\<close> and \<open>DUP n\<close> stand for SWAPn and DUPn (n from 1 to 16), \<open>LOG n\<close>
  for LOGn (n from 0 to 4), so that \<open>op - SWAP1 + 2\<close> is \<open>n + 1\<close>, \<open>op - DUP1 + 1\<close>
  is \<open>n\<close> and \<open>op - LOG0\<close> is \<open>n\<close>. \<open>OtherOp b\<close> is any other byte.
\<close>

datatype OpCode =
    STOP | PC | JUMP | JUMPI | SUICIDE | EXTCODESIZE | BALANCE | SLOAD | SSTORE
  | SWAP nat | DUP nat | LOG nat | EXP | MLOAD | MSTORE | MSTORE8 | RETURN | REVERT
  | SHA3 | CALLDATACOPY | RETURNDATACOPY | CODECOPY | EXTCODECOPY | CREATE | CREATE2
  | CALL | CALLCODE | DELEGATECALL | STATICCALL | OtherOp nat

text \<open>
  The errors a frame can end with. \<open>Panic\<close> is not an error value of the source: it
  stands for a Go run-time panic (a slice index out of range), which leaves \<open>Run\<close>
  without a result while its deferred call still runs.
\<close>

datatype error =
    OutOfGasError | errWriteProtection | ErrExecutionReverted | StackUnderflow
  | InvalidJumpDestination | InvalidOpcode | OtherError | Panic

definition bindE :: "error + 'a \<Rightarrow> ('a \<Rightarrow> error + 'b) \<Rightarrow> error + 'b" where
  "bindE m f = (case m of Inl e \<Rightarrow> Inl e | Inr x \<Rightarrow> f x)"

text \<open>
  The state backend (\<open>Database\<close>, an external collaborator): the queries the
  interpreter makes of it and the refund counter it accumulates.
\<close>

record StateDB =
  GetState :: "address \<Rightarrow> hash \<Rightarrow> hash"
  Exist :: "address \<Rightarrow> bool"
  HasSuicided :: "address \<Rightarrow> bool"
  Refund :: int

record GasTable =
  ExtcodeSize :: int
  ExtcodeCopy :: int
  Balance :: int
  SLoad :: int
  Calls :: int
  Suicide :: int
  ExpByte :: int
  CreateBySuicide :: "int option"

text \<open>The parts of a \<open>Contract\<close> that \<open>Run\<close> only reads.\<close>

record Contract =
  CodeAddr :: "address option"
  Code :: bytes
  CodeHash :: hash
  Address :: address

text \<open>
  Everything \<open>Run\<close> and the opcode handlers can change: the environment (depth,
  return data, the read-only flag, the two fork rules at the current block, the state
  database), the contract's gas and input, and the locals of the frame (memory, stack
  with its top at the end as in \<open>stack.data\<close>, program counter, the map of original
  storage values). \<open>Depth\<close> is a Go \<open>int\<close>, \<open>pc\<close> a \<open>uint64\<close>.
\<close>

record vm =
  Depth :: "64 word"
  ReturnData :: bytes
  IsReadOnly :: bool
  IsECIP1045B :: bool
  IsEIP1283 :: bool
  Db :: StateDB
  Gas :: int
  Input :: bytes
  mem :: bytes
  stack :: "int list"
  pc :: "64 word"
  originalSStoreMap :: "address \<rightharpoonup> hash"

definition AddRefund :: "int \<Rightarrow> vm \<Rightarrow> vm" where
  "AddRefund g s = s\<lparr>Db := (Db s)\<lparr>Refund := Refund (Db s) + g\<rparr>\<rparr>"

definition SetDepth :: "64 word \<Rightarrow> vm \<Rightarrow> vm" where
  "SetDepth d s = s\<lparr>Depth := d\<rparr>"

definition SetReturnData :: "bytes \<Rightarrow> vm \<Rightarrow> vm" where
  "SetReturnData r s = s\<lparr>ReturnData := r\<rparr>"

text \<open>
  An instruction function gets the contract and the frame and may return output bytes and an error, as
  \<open>opReturnDataCopy\<close> does at line 192. A jump table entry is a validity flag and an
  optional function; a precompiled account is a pricing function and a call.
\<close>

type_synonym instrFn = "Contract \<Rightarrow> vm \<Rightarrow> (bytes \<times> error option) \<times> vm"

record jumpPtr =
  valid :: bool
  fn :: "instrFn option"

record PrecompiledAccount =
  PrecompiledGas :: "bytes \<Rightarrow> int"
  PrecompiledCall :: "bytes \<Rightarrow> bytes \<times> error option"

text \<open>
  Code of the repository that is not among the sources and on which the spec gives no
  detail enters as a parameter: the gas table and jump table chosen for the block, the
  constant \<open>GasFastestStep\<close>, the base check of an opcode (its error, or the gas
  it adds to the given amount), the memory size and expansion price functions
  (\<open>quadMemGas\<close> updates both the size and the gas it is handed), the opcode
  predicates, the code reader, the jump destination analysis, the memory operations,
  the handlers \<open>Run\<close> calls by name and the two precompile tables.
\<close>

record deps =
  gasTable :: GasTable
  GasFastestStep :: int
  jumpTable :: "OpCode \<Rightarrow> jumpPtr"
  baseCheck :: "OpCode \<Rightarrow> int list \<Rightarrow> int \<Rightarrow> error + int"
  calcMemSize :: "int \<Rightarrow> int \<Rightarrow> int"
  quadMemGas :: "bytes \<Rightarrow> int \<Rightarrow> int \<Rightarrow> int \<times> int"
  toWordSize :: "int \<Rightarrow> int"
  IsStateModifying :: "OpCode \<Rightarrow> bool"
  IsReturning :: "OpCode \<Rightarrow> bool"
  GetOp :: "bytes \<Rightarrow> 64 word \<Rightarrow> OpCode"
  Keccak256Hash :: "bytes \<Rightarrow> hash"
  jumpdests_has :: "hash \<Rightarrow> bytes \<Rightarrow> int \<Rightarrow> bool"
  Resize :: "bytes \<Rightarrow> 64 word \<Rightarrow> bytes"
  GetPtr :: "bytes \<Rightarrow> 64 word \<Rightarrow> 64 word \<Rightarrow> bytes"
  opPc :: "64 word \<Rightarrow> instrFn"
  opReturnDataCopy :: instrFn
  opSuicide :: instrFn
  PrecompiledHomestead :: "address \<Rightarrow> PrecompiledAccount option"
  PrecompiledContractsECIP1045B :: "address \<Rightarrow> PrecompiledAccount option"

section \<open>The stack\<close>

text \<open>
  \<open>stack.data[i]\<close> is a Go slice access: out of range it panics. \<open>data_back d k\<close> is
  \<open>stack.data[stack.len()-k]\<close>.
\<close>

definition data_at :: "int list \<Rightarrow> int \<Rightarrow> error + int" where
  "data_at d i = (if 0 \<le> i \<and> i < int (length d) then Inr (d ! nat i) else Inl Panic)"

definition data_back :: "int list \<Rightarrow> nat \<Rightarrow> error + int" where
  "data_back d k = data_at d (int (length d) - int k)"

text \<open>Modelled from the spec: stack.go is not among the sources. Section 4.1: \<open>peek\<close> reads
  the topmost word and \<open>pop\<close> removes and returns it, and both fail with
  StackUnderflow on an empty stack. \<open>require n\<close> is the underflow check of section
  4.4: it fails when fewer than \<open>n\<close> items are present.
\<close>

definition peek :: "int list \<Rightarrow> error + int" where
  "peek d = (if d = [] then Inl StackUnderflow else Inr (last d))"

definition pop :: "int list \<Rightarrow> error + (int \<times> int list)" where
  "pop d = (if d = [] then Inl StackUnderflow else Inr (last d, butlast d))"

definition require :: "int list \<Rightarrow> int \<Rightarrow> error + unit" where
  "require d n = (if int (length d) < n then Inl StackUnderflow else Inr ())"

section \<open>Charging gas and forwarding gas to a call\<close>

text \<open>Modelled from the spec: \<open>Contract.UseGas\<close> is not among the sources. Sections 3, 4.6
  and 7: a charge that exceeds the remaining gas is rejected and consumes all remaining
  gas; otherwise the whole charge is deducted. The result is the success flag and the
  frame after the charge.
\<close>

definition UseGas :: "int \<Rightarrow> vm \<Rightarrow> bool \<times> vm" where
  "UseGas cost s =
     (if Gas s < cost then (False, s\<lparr>Gas := 0\<rparr>) else (True, s\<lparr>Gas := Gas s - cost\<rparr>))"

text \<open>Modelled from the spec: \<open>callGas\<close> is not among the sources. Section 4.7: with the
  gas that remains after the base cost, a request above 63/64 of it is capped to that
  amount (rounded down), any other request is forwarded as it is. The arguments are
  those of the call sites: the gas table, the contract's gas, the base cost computed so
  far, and the requested gas from the stack.
\<close>

definition callGas :: "GasTable \<Rightarrow> int \<Rightarrow> int \<Rightarrow> int \<Rightarrow> int" where
  "callGas gt availableGas base callCost =
     (let cap = (availableGas - base) * 63 div 64
      in if cap < callCost then cap else callCost)"

section \<open>The cost calculator\<close>

text \<open>
  \<open>calculateGasAndSize\<close> (vm.go, lines 218-423) returns the new memory size and the
  gas, or an error; it changes the refund counter, the map of original values and the
  topmost stack slot. In every branch the failures (an error of \<open>baseCheck\<close>,
  \<open>require\<close> or \<open>peek\<close>, a slice index out of range) come before the first change, so a failing
  call leaves the frame as it was: the model returns the changed frame with the result
  and nothing with an error. The larger branches of the switch are definitions of their
  own, called with the gas \<open>baseCheck\<close> has computed.
\<close>

text \<open>Lines 230-241, case SUICIDE.\<close>

definition gas_SUICIDE :: "deps \<Rightarrow> Contract \<Rightarrow> vm \<Rightarrow> int \<Rightarrow> error + (int \<times> int \<times> vm)" where
  "gas_SUICIDE D contract s gas =
     bindE (case CreateBySuicide (gasTable D) of
              None \<Rightarrow> Inr gas
            | Some createBySuicide \<Rightarrow>
                bindE (data_back (stack s) 1) (\<lambda>a.
                  Inr (if \<not> Exist (Db s) (BigToAddress a)
                       then Suicide (gasTable D) + createBySuicide
                       else Suicide (gasTable D))))
       (\<lambda>gas'. Inr (0, gas',
          if \<not> HasSuicided (Db s) (Address contract) then AddRefund 24000 s else s))"

text \<open>Lines 262-280, case LOG0 to LOG4.\<close>

definition gas_LOG :: "deps \<Rightarrow> nat \<Rightarrow> vm \<Rightarrow> int \<Rightarrow> error + (int \<times> int \<times> vm)" where
  "gas_LOG D n s gas =
     bindE (require (stack s) (int n + 2)) (\<lambda>_.
     bindE (data_back (stack s) 2) (\<lambda>mSize.
     bindE (data_back (stack s) 1) (\<lambda>mStart.
       let gas1 = gas + 375 + int n * 375 + mSize * 8;
           (newMemSize, gas2) = quadMemGas D (mem s) (calcMemSize D mStart mSize) gas1
       in Inr (newMemSize, gas2, s))))"

text \<open>
  Lines 284-325, case SSTORE. The current value is read under the 32-byte key
  \<open>common.BigToHash(storageLoc)\<close>, the map of original values is read and written
  under \<open>common.BigToAddress(storageLoc)\<close>. The gas of \<open>baseCheck\<close> is overwritten
  (\<open>gas.Set(g)\<close>).
\<close>

definition gas_SSTORE :: "Contract \<Rightarrow> vm \<Rightarrow> error + (int \<times> int \<times> vm)" where
  "gas_SSTORE contract s =
     bindE (require (stack s) 2) (\<lambda>_.
     bindE (data_back (stack s) 2) (\<lambda>newValue.
     bindE (data_back (stack s) 1) (\<lambda>storageLoc.
       let refundCounter = 0;
           currentValue = GetState (Db s) (Address contract) (BigToHash storageLoc)
       in if \<not> IsEIP1283 s then
            (if EmptyHash currentValue \<and> \<not> EmptyHash (BigToHash newValue)
             then Inr (0, 20000, AddRefund refundCounter s)
             else if \<not> EmptyHash currentValue \<and> EmptyHash (BigToHash newValue)
             then Inr (0, 5000, AddRefund (refundCounter + 15000) s)
             else Inr (0, 5000, AddRefund refundCounter s))
          else
            (let loc = BigToAddress storageLoc;
                 (originalValue, s1) =
                   (case originalSStoreMap s loc of
                      Some v \<Rightarrow> (v, s)
                    | None \<Rightarrow>
                        (currentValue,
                         s\<lparr>originalSStoreMap := (originalSStoreMap s)(loc \<mapsto> currentValue)\<rparr>));
                 (g, refundCounter') =
                   eip1283sstoreGas (Big originalValue) (Big currentValue) newValue
             in Inr (0, g, AddRefund refundCounter' s1)))))"

text \<open>
  Lines 391-399 and 411-418, the same statements in both call branches: the forwarded
  gas \<open>cg\<close> is computed from the contract's gas, the gas computed so far and the
  topmost stack item; it overwrites that item and is added to the gas.
\<close>

definition forwardCallGas :: "deps \<Rightarrow> vm \<Rightarrow> int \<Rightarrow> int \<Rightarrow> error + (int \<times> int \<times> vm)" where
  "forwardCallGas D s newMemSize gas =
     bindE (data_back (stack s) 1) (\<lambda>requested.
       let cg = callGas (gasTable D) (Gas s) gas requested
       in Inr (newMemSize, gas + cg, s\<lparr>stack := (stack s)[length (stack s) - 1 := cg]\<rparr>))"

text \<open>Lines 373-389, case CALL and CALLCODE up to the memory price.\<close>

definition base_CALL :: "deps \<Rightarrow> OpCode \<Rightarrow> vm \<Rightarrow> error + (int \<times> int)" where
  "base_CALL D op s =
     (let st = stack s; gas0 = Calls (gasTable D) in
      bindE (if op = CALL
             then bindE (data_back st 2) (\<lambda>a.
                    Inr (if \<not> Exist (Db s) (BigToAddress a) then gas0 + 25000 else gas0))
             else Inr gas0) (\<lambda>gas1.
      bindE (data_back st 3) (\<lambda>v.
      let gas2 = (if 0 < BytesLen v then gas1 + 9000 else gas1) in
      bindE (data_back st 6) (\<lambda>x1.
      bindE (data_back st 7) (\<lambda>x2.
      bindE (data_back st 4) (\<lambda>y1.
      bindE (data_back st 5) (\<lambda>y2.
      let x = calcMemSize D x1 x2;
          y = calcMemSize D y1 y2
      in Inr (quadMemGas D (mem s) (BigMax x y) gas2))))))))"

definition gas_CALL :: "deps \<Rightarrow> OpCode \<Rightarrow> vm \<Rightarrow> error + (int \<times> int \<times> vm)" where
  "gas_CALL D op s =
     bindE (base_CALL D op s) (\<lambda>(newMemSize, gas). forwardCallGas D s newMemSize gas)"

text \<open>Lines 401-409, case DELEGATECALL and STATICCALL up to the memory price.\<close>

definition base_DELEGATECALL :: "deps \<Rightarrow> vm \<Rightarrow> error + (int \<times> int)" where
  "base_DELEGATECALL D s =
     (let st = stack s; gas0 = Calls (gasTable D) in
      bindE (data_back st 5) (\<lambda>x1.
      bindE (data_back st 6) (\<lambda>x2.
      bindE (data_back st 3) (\<lambda>y1.
      bindE (data_back st 4) (\<lambda>y2.
      let x = calcMemSize D x1 x2;
          y = calcMemSize D y1 y2
      in Inr (quadMemGas D (mem s) (BigMax x y) gas0))))))"

definition gas_DELEGATECALL :: "deps \<Rightarrow> vm \<Rightarrow> error + (int \<times> int \<times> vm)" where
  "gas_DELEGATECALL D s =
     bindE (base_DELEGATECALL D s) (\<lambda>(newMemSize, gas). forwardCallGas D s newMemSize gas)"

text \<open>
  The memory opcodes: the size from two operands, then the expansion price; SHA3 and
  the copies add a price per word first.
\<close>

definition gas_mem :: "deps \<Rightarrow> vm \<Rightarrow> error + int \<Rightarrow> error + int \<Rightarrow> int \<Rightarrow> error + (int \<times> int \<times> vm)" where
  "gas_mem D s off len gas =
     bindE off (\<lambda>a. bindE len (\<lambda>b.
       let (newMemSize, gas') = quadMemGas D (mem s) (calcMemSize D a b) gas
       in Inr (newMemSize, gas', s)))"

definition gas_copy :: "deps \<Rightarrow> vm \<Rightarrow> error + int \<Rightarrow> nat \<Rightarrow> int \<Rightarrow> int \<Rightarrow> error + (int \<times> int \<times> vm)" where
  "gas_copy D s off k perWord gas =
     bindE off (\<lambda>a. bindE (data_back (stack s) k) (\<lambda>b.
       let newMemSize0 = calcMemSize D a b;
           words = toWordSize D b;
           (newMemSize, gas') = quadMemGas D (mem s) newMemSize0 (gas + words * perWord)
       in Inr (newMemSize, gas', s)))"

definition calculateGasAndSize :: "deps \<Rightarrow> Contract \<Rightarrow> OpCode \<Rightarrow> vm \<Rightarrow> error + (int \<times> int \<times> vm)" where
  "calculateGasAndSize D contract op s =
     bindE (baseCheck D op (stack s) 0) (\<lambda>gas.
       case op of
         SUICIDE \<Rightarrow> gas_SUICIDE D contract s gas
       | EXTCODESIZE \<Rightarrow> Inr (0, ExtcodeSize (gasTable D), s)
       | BALANCE \<Rightarrow> Inr (0, Balance (gasTable D), s)
       | SLOAD \<Rightarrow> Inr (0, SLoad (gasTable D), s)
       | SWAP n \<Rightarrow> bindE (require (stack s) (int n + 1)) (\<lambda>_. Inr (0, GasFastestStep D, s))
       | DUP n \<Rightarrow> bindE (require (stack s) (int n)) (\<lambda>_. Inr (0, GasFastestStep D, s))
       | LOG n \<Rightarrow> gas_LOG D n s gas
       | EXP \<Rightarrow>
           bindE (data_back (stack s) 2) (\<lambda>e.
             Inr (0, gas + int (BytesLen e) * ExpByte (gasTable D), s))
       | SSTORE \<Rightarrow> gas_SSTORE contract s
       | MLOAD \<Rightarrow> gas_mem D s (peek (stack s)) (Inr 32) gas
       | MSTORE8 \<Rightarrow> gas_mem D s (peek (stack s)) (Inr 1) gas
       | MSTORE \<Rightarrow> gas_mem D s (peek (stack s)) (Inr 32) gas
       | RETURN \<Rightarrow> gas_mem D s (peek (stack s)) (data_back (stack s) 2) gas
       | REVERT \<Rightarrow> gas_mem D s (peek (stack s)) (data_back (stack s) 2) gas
       | SHA3 \<Rightarrow> gas_copy D s (peek (stack s)) 2 6 gas
       | CALLDATACOPY \<Rightarrow> gas_copy D s (peek (stack s)) 3 3 gas
       | RETURNDATACOPY \<Rightarrow> gas_copy D s (peek (stack s)) 3 3 gas
       | CODECOPY \<Rightarrow> gas_copy D s (peek (stack s)) 3 3 gas
       | EXTCODECOPY \<Rightarrow> gas_copy D s (data_back (stack s) 2) 4 3 (ExtcodeCopy (gasTable D))
       | CREATE \<Rightarrow> gas_mem D s (data_back (stack s) 2) (data_back (stack s) 3) gas
       | CREATE2 \<Rightarrow> gas_mem D s (data_back (stack s) 2) (data_back (stack s) 3) gas
       | CALL \<Rightarrow> gas_CALL D op s
       | CALLCODE \<Rightarrow> gas_CALL D op s
       | DELEGATECALL \<Rightarrow> gas_DELEGATECALL D s
       | STATICCALL \<Rightarrow> gas_DELEGATECALL D s
       | _ \<Rightarrow> Inr (0, gas, s))"

section \<open>The interpreter loop\<close>

text \<open>
  Lines 136-140: the write protection check. Go's \<open>&&\<close> and \<open>||\<close> evaluate their
  right operand only when needed, so the stack is read only in read-only mode under
  the fork rule, for an opcode that is not state-modifying and is CALL.
\<close>

definition checkStateMod :: "deps \<Rightarrow> OpCode \<Rightarrow> vm \<Rightarrow> error + bool" where
  "checkStateMod D op s =
     (if \<not> (IsECIP1045B s \<and> IsReadOnly s) then Inr False
      else if IsStateModifying D op then Inr True
      else if op = CALL
        then bindE (data_back (stack s) (2 + 1)) (\<lambda>v. Inr (0 < BitLen v))
        else Inr False)"

text \<open>
  A step of the loop either goes on with the next iteration or leaves \<open>Run\<close> with the
  returned bytes and error (\<open>nil\<close> bytes are \<open>[]\<close>, a \<open>nil\<close> error is \<open>None\<close>).
\<close>

datatype step_result = Next vm | Done bytes "error option" vm

text \<open>Lines 103-112: the closure \<open>jump\<close>.\<close>

definition jump :: "deps \<Rightarrow> Contract \<Rightarrow> hash \<Rightarrow> int \<Rightarrow> vm \<Rightarrow> error + vm" where
  "jump D contract codehash to s =
     (if \<not> jumpdests_has D codehash (Code contract) to then Inl InvalidJumpDestination
      else Inr (s\<lparr>pc := Uint64 to\<rparr>))"

text \<open>
  Lines 208-212. \<open>ret\<close> is the named result of \<open>Run\<close>; no statement of the loop
  assigns it (each \<open>ret :=\<close> declares a new variable of an inner block, and the
  results of the instruction functions are dropped), so it is \<open>nil\<close> here.
\<close>

definition advance :: "deps \<Rightarrow> OpCode \<Rightarrow> vm \<Rightarrow> step_result" where
  "advance D op s =
     (let ret = [];
          s1 = (if IsReturning D op then SetReturnData ret s else s)
      in Next (s1\<lparr>pc := pc s1 + 1\<rparr>))"

text \<open>Lines 156-206: the dispatch, after gas is charged and memory resized.\<close>

definition execute :: "deps \<Rightarrow> Contract \<Rightarrow> hash \<Rightarrow> OpCode \<Rightarrow> vm \<Rightarrow> step_result" where
  "execute D contract codehash op s =
     (let opPtr = jumpTable D op in
      if valid opPtr then
        (case fn opPtr of
           Some f \<Rightarrow> advance D op (snd (f contract s))
         | None \<Rightarrow>
            (case op of
               PC \<Rightarrow> advance D op (snd (opPc D (pc s) contract s))
             | JUMP \<Rightarrow>
                (case pop (stack s) of
                   Inl e \<Rightarrow> Done [] (Some e) s
                 | Inr (to, st1) \<Rightarrow>
                    (case jump D contract codehash to (s\<lparr>stack := st1\<rparr>) of
                       Inl e \<Rightarrow> Done [] (Some e) (s\<lparr>stack := st1\<rparr>)
                     | Inr s' \<Rightarrow> Next s'))
             | JUMPI \<Rightarrow>
                (case pop (stack s) of
                   Inl e \<Rightarrow> Done [] (Some e) s
                 | Inr (pos, st1) \<Rightarrow>
                    (case pop st1 of
                       Inl e \<Rightarrow> Done [] (Some e) (s\<lparr>stack := st1\<rparr>)
                     | Inr (cond, st2) \<Rightarrow>
                        if cond \<noteq> 0 then
                          (case jump D contract codehash pos (s\<lparr>stack := st2\<rparr>) of
                             Inl e \<Rightarrow> Done [] (Some e) (s\<lparr>stack := st2\<rparr>)
                           | Inr s' \<Rightarrow> Next s')
                        else advance D op (s\<lparr>stack := st2\<rparr>)))
             | REVERT \<Rightarrow>
                (case pop (stack s) of
                   Inl e \<Rightarrow> Done [] (Some e) s
                 | Inr (offset, st1) \<Rightarrow>
                    (case pop st1 of
                       Inl e \<Rightarrow> Done [] (Some e) (s\<lparr>stack := st1\<rparr>)
                     | Inr (sz, st2) \<Rightarrow>
                        Done (GetPtr D (mem s) (Int64 offset) (Int64 sz))
                          (Some ErrExecutionReverted) (s\<lparr>stack := st2\<rparr>)))
             | RETURN \<Rightarrow>
                (case pop (stack s) of
                   Inl e \<Rightarrow> Done [] (Some e) s
                 | Inr (offset, st1) \<Rightarrow>
                    (case pop st1 of
                       Inl e \<Rightarrow> Done [] (Some e) (s\<lparr>stack := st1\<rparr>)
                     | Inr (sz, st2) \<Rightarrow>
                        Done (GetPtr D (mem s) (Int64 offset) (Int64 sz))
                          None (s\<lparr>stack := st2\<rparr>)))
             | RETURNDATACOPY \<Rightarrow>
                (case opReturnDataCopy D contract s of
                   ((out, Some e), s') \<Rightarrow> Done [] (Some e) s'
                 | ((out, None), s') \<Rightarrow> advance D op s')
             | SUICIDE \<Rightarrow> Done [] None (snd (opSuicide D contract s))
             | STOP \<Rightarrow> Done [] None s
             | _ \<Rightarrow> advance D op s))
      else Done [] (Some InvalidOpcode) s)"

text \<open>Lines 128-154, then the dispatch: one iteration of the loop.\<close>

definition step :: "deps \<Rightarrow> Contract \<Rightarrow> hash \<Rightarrow> vm \<Rightarrow> step_result" where
  "step D contract codehash s =
     (let op = GetOp D (Code contract) (pc s) in
      case checkStateMod D op s of
        Inl e \<Rightarrow> Done [] (Some e) s
      | Inr violation \<Rightarrow>
          if violation then Done [] (Some errWriteProtection) s
          else
            (case calculateGasAndSize D contract op s of
               Inl e \<Rightarrow> Done [] (Some e) s
             | Inr (newMemSize, cost, s1) \<Rightarrow>
                 (let (ok, s2) = UseGas cost s1 in
                  if \<not> ok then Done [] (Some OutOfGasError) s2
                  else execute D contract codehash op
                         (s2\<lparr>mem := Resize D (mem s2) (Uint64 newMemSize)\<rparr>))))"

text \<open>
  The loop has no bound of its own, so the model counts iterations down from a given
  number and has no result (\<open>None\<close>) when they run out.
\<close>

fun Run_loop :: "deps \<Rightarrow> Contract \<Rightarrow> hash \<Rightarrow> nat \<Rightarrow> vm \<Rightarrow> ((bytes \<times> error option) \<times> vm) option" where
  "Run_loop D contract codehash 0 s = None"
| "Run_loop D contract codehash (Suc n) s =
     (case step D contract codehash s of
        Next s' \<Rightarrow> Run_loop D contract codehash n s'
      | Done ret err s' \<Rightarrow> Some ((ret, err), s'))"

text \<open>Lines 426-433.\<close>

definition RunPrecompiled :: "PrecompiledAccount \<Rightarrow> bytes \<Rightarrow> vm \<Rightarrow> (bytes \<times> error option) \<times> vm" where
  "RunPrecompiled p input s =
     (let gas = PrecompiledGas p input;
          (ok, s1) = UseGas gas s
      in if ok then (PrecompiledCall p input, s1) else (([], Some OutOfGasError), s1))"

text \<open>
  Lines 65-213: \<open>Run\<close> after its first two statements. The locals of the frame
  (memory, stack, program counter, map of original values) are created at lines 87-99.
\<close>

definition Run_body :: "deps \<Rightarrow> Contract \<Rightarrow> bytes \<Rightarrow> nat \<Rightarrow> vm \<Rightarrow> ((bytes \<times> error option) \<times> vm) option" where
  "Run_body D contract input fuel s0 =
     (let s1 = SetReturnData [] s0;
          precompiled =
            (case CodeAddr contract of
               None \<Rightarrow> None
             | Some a \<Rightarrow>
                 if IsECIP1045B s1 then PrecompiledContractsECIP1045B D a
                 else PrecompiledHomestead D a)
      in case precompiled of
           Some p \<Rightarrow> Some (RunPrecompiled p input s1)
         | None \<Rightarrow>
             if length (Code contract) = 0 then Some (([], None), s1)
             else
               (let codehash = (if CodeHash contract = 0
                                then Keccak256Hash D (Code contract)
                                else CodeHash contract);
                    s2 = s1\<lparr>Input := input, mem := [], stack := [], pc := 0,
                            originalSStoreMap := Map.empty\<rparr>
                in Run_loop D contract codehash fuel s2))"

text \<open>
  Lines 62-63. The argument of a deferred call is evaluated when the \<open>defer\<close>
  statement runs: \<open>Depth() - 1\<close> is computed right after the depth was raised, and
  the deferred \<open>SetDepth\<close> stores that number when \<open>Run\<close> is left, by a return or
  by a panic.
\<close>

definition Run :: "deps \<Rightarrow> Contract \<Rightarrow> bytes \<Rightarrow> nat \<Rightarrow> vm \<Rightarrow> ((bytes \<times> error option) \<times> vm) option" where
  "Run D contract input fuel s =
     (let s1 = SetDepth (Depth s + 1) s;
          deferred = Depth s1 - 1
      in case Run_body D contract input fuel s1 of
           None \<Rightarrow> None
         | Some (r, s') \<Rightarrow> Some (r, SetDepth deferred s'))"

section \<open>A concrete environment\<close>

text \<open>
  One instance of the parameters, on which the definitions above are evaluated: the
  gas table of the later forks, the usual memory size and price formulas, a reader of
  code bytes that yields STOP past the end, and a jump table with handlers for PUSH1
  (byte 0x60), SSTORE and CALL. The CALL handler stands for a call whose callee
  returned the single byte 42; the SUICIDE handler registers the self-destruct.
  The state-modifying opcodes are the storage write, the logs, the creations and the
  self-destruct; CALL is not among them (the check of line 137 reads its value
  operand for that reason). The returning opcodes are the four calls.
\<close>

definition gasTable0 :: GasTable where
  "gasTable0 = \<lparr>ExtcodeSize = 700, ExtcodeCopy = 700, Balance = 400, SLoad = 200,
     Calls = 700, Suicide = 5000, ExpByte = 10, CreateBySuicide = Some 25000\<rparr>"

definition decodeOp :: "8 word \<Rightarrow> OpCode" where
  "decodeOp b =
     (if b = 0x00 then STOP else if b = 0x55 then SSTORE else if b = 0xf1 then CALL
      else if b = 0xff then SUICIDE else OtherOp (unat b))"

definition GetOp0 :: "bytes \<Rightarrow> 64 word \<Rightarrow> OpCode" where
  "GetOp0 code n = (if unat n < length code then decodeOp (code ! unat n) else STOP)"

definition stackNeed0 :: "OpCode \<Rightarrow> nat" where
  "stackNeed0 op = (case op of SSTORE \<Rightarrow> 2 | SUICIDE \<Rightarrow> 1 | CALL \<Rightarrow> 7 | _ \<Rightarrow> 0)"

definition baseCheck0 :: "OpCode \<Rightarrow> int list \<Rightarrow> int \<Rightarrow> error + int" where
  "baseCheck0 op st gas =
     (if length st < stackNeed0 op then Inl StackUnderflow
      else Inr (gas + (case op of OtherOp b \<Rightarrow> 3 | _ \<Rightarrow> 0)))"

definition toWordSize0 :: "int \<Rightarrow> int" where
  "toWordSize0 n = (n + 31) div 32"

definition calcMemSize0 :: "int \<Rightarrow> int \<Rightarrow> int" where
  "calcMemSize0 off l = (if l = 0 then 0 else off + l)"

definition memFee0 :: "int \<Rightarrow> int" where
  "memFee0 w = w * 3 + w * w div 512"

definition quadMemGas0 :: "bytes \<Rightarrow> int \<Rightarrow> int \<Rightarrow> int \<times> int" where
  "quadMemGas0 m newMemSize gas =
     (if 0 < newMemSize then
        (let words = toWordSize0 newMemSize; rounded = words * 32
         in if int (length m) < rounded
            then (rounded, gas + (memFee0 words - memFee0 (toWordSize0 (int (length m)))))
            else (rounded, gas))
      else (newMemSize, gas))"

definition IsStateModifying0 :: "OpCode \<Rightarrow> bool" where
  "IsStateModifying0 op =
     (case op of SSTORE \<Rightarrow> True | LOG n \<Rightarrow> True | CREATE \<Rightarrow> True | CREATE2 \<Rightarrow> True
      | SUICIDE \<Rightarrow> True | _ \<Rightarrow> False)"

definition IsReturning0 :: "OpCode \<Rightarrow> bool" where
  "IsReturning0 op =
     (case op of CALL \<Rightarrow> True | CALLCODE \<Rightarrow> True | DELEGATECALL \<Rightarrow> True
      | STATICCALL \<Rightarrow> True | _ \<Rightarrow> False)"

definition opPush1_0 :: instrFn where
  "opPush1_0 contract s =
     (([], None),
      s\<lparr>stack := stack s @ [if unat (pc s + 1) < length (Code contract)
                              then uint (Code contract ! unat (pc s + 1)) else 0],
        pc := pc s + 1\<rparr>)"

definition opSstore0 :: instrFn where
  "opSstore0 contract s = (([], None), s\<lparr>stack := butlast (butlast (stack s))\<rparr>)"

definition opCall0 :: instrFn where
  "opCall0 contract s = (([42], None), s\<lparr>stack := take (length (stack s) - 7) (stack s) @ [1]\<rparr>)"

definition opSuicide0 :: instrFn where
  "opSuicide0 contract s =
     (([], None),
      s\<lparr>Db := (Db s)\<lparr>HasSuicided := (HasSuicided (Db s))(Address contract := True)\<rparr>\<rparr>)"

definition jumpTable0 :: "OpCode \<Rightarrow> jumpPtr" where
  "jumpTable0 op =
     \<lparr>valid = True,
      fn = (case op of
              OtherOp b \<Rightarrow> (if b = 0x60 then Some opPush1_0 else None)
            | SSTORE \<Rightarrow> Some opSstore0
            | CALL \<Rightarrow> Some opCall0
            | _ \<Rightarrow> None)\<rparr>"

definition D0 :: deps where
  "D0 = \<lparr>gasTable = gasTable0, GasFastestStep = 2, jumpTable = jumpTable0,
     baseCheck = baseCheck0, calcMemSize = calcMemSize0, quadMemGas = quadMemGas0,
     toWordSize = toWordSize0, IsStateModifying = IsStateModifying0,
     IsReturning = IsReturning0, GetOp = GetOp0, Keccak256Hash = (\<lambda>c. 1),
     jumpdests_has = (\<lambda>h c to. False),
     Resize = (\<lambda>m n. m @ replicate (unat n - length m) 0),
     GetPtr = (\<lambda>m off sz. take (unat sz) (drop (unat off) m)),
     opPc = (\<lambda>p contract s. (([], None), s\<lparr>stack := stack s @ [uint p]\<rparr>)),
     opReturnDataCopy = (\<lambda>contract s. (([], None), s)),
     opSuicide = opSuicide0,
     PrecompiledHomestead = (\<lambda>a. None),
     PrecompiledContractsECIP1045B = (\<lambda>a. None)\<rparr>"

text \<open>
  A contract at address 7 and a state in which its storage slot 1 holds 5 and every
  other slot 0, no account but the contract itself exists, nothing has self-destructed
  and the refund counter is 0.
\<close>

definition contract0 :: "bytes \<Rightarrow> Contract" where
  "contract0 code = \<lparr>CodeAddr = None, Code = code, CodeHash = 0, Address = 7\<rparr>"

definition db0 :: StateDB where
  "db0 = \<lparr>GetState = (\<lambda>a k. if a = 7 \<and> k = 1 then 5 else 0), Exist = (\<lambda>a. a = 7),
     HasSuicided = (\<lambda>a. False), Refund = 0\<rparr>"

definition vm0 :: "bool \<Rightarrow> bool \<Rightarrow> bool \<Rightarrow> int \<Rightarrow> int list \<Rightarrow> vm" where
  "vm0 readOnly ecip1045b eip1283 gas st =
     \<lparr>Depth = 3, ReturnData = [9], IsReadOnly = readOnly, IsECIP1045B = ecip1045b,
      IsEIP1283 = eip1283, Db = db0, Gas = gas, Input = [], mem = [], stack = st, pc = 0,
      originalSStoreMap = Map.empty\<rparr>"

section \<open>Auxiliary facts\<close>

lemma bindE_Inr_iff: "bindE m f = Inr y \<longleftrightarrow> (\<exists>x. m = Inr x \<and> f x = Inr y)"
  by (cases m) (simp_all add: bindE_def)

lemma data_back_Inr:
  "data_back d k = Inr v \<longleftrightarrow> (0 < k \<and> k \<le> length d \<and> v = d ! (length d - k))"
  by (auto simp: data_back_def data_at_def nat_diff_distrib')

lemma data_back_append:
  "0 < k \<Longrightarrow> k \<le> length ys \<Longrightarrow> data_back (xs @ ys) k = data_back ys k"
  by (auto simp: data_back_def data_at_def nth_append nat_diff_distrib' nat_add_distrib)

lemma data_back_two:
  "data_back (xs @ [y, x]) 2 = Inr y" "data_back (xs @ [y, x]) (Suc 0) = Inr x"
  by (simp_all add: data_back_append) (simp_all add: data_back_def data_at_def)

lemma BitLen_pos_iff: "0 < BitLen v \<longleftrightarrow> v \<noteq> 0"
  by (simp add: BitLen_def)

lemma BigToHash_eq_0_iff:
  "0 \<le> v \<Longrightarrow> v < 2 ^ 256 \<Longrightarrow> BigToHash v = 0 \<longleftrightarrow> v = 0"
  unfolding BigToHash_def word_of_int_eq_0_iff
  by (auto dest: zdvd_imp_le)

lemma update_top: "xs \<noteq> [] \<Longrightarrow> xs[length xs - 1 := v] = butlast xs @ [v]"
  by (cases xs rule: rev_cases) (simp_all add: list_update_append)

text \<open>What each branch of the cost calculator leaves of the frame.\<close>

lemma gas_SUICIDE_frame:
  "gas_SUICIDE D c s g = Inr (nm, cost, s') \<Longrightarrow>
     s' = (if HasSuicided (Db s) (Address c) then s else AddRefund 24000 s)"
  by (auto simp: gas_SUICIDE_def bindE_Inr_iff split: option.splits if_splits)

lemma gas_SSTORE_Gas: "gas_SSTORE c s = Inr (nm, cost, s') \<Longrightarrow> Gas s' = Gas s"
  by (auto simp: gas_SSTORE_def bindE_Inr_iff AddRefund_def Let_def case_prod_beta
      split: option.splits if_splits)

lemma gas_LOG_frame: "gas_LOG D n s g = Inr (nm, cost, s') \<Longrightarrow> s' = s"
  by (auto simp: gas_LOG_def bindE_Inr_iff Let_def case_prod_beta)

lemma gas_mem_frame: "gas_mem D s a b g = Inr (nm, cost, s') \<Longrightarrow> s' = s"
  by (auto simp: gas_mem_def bindE_Inr_iff Let_def case_prod_beta)

lemma gas_copy_frame: "gas_copy D s a k w g = Inr (nm, cost, s') \<Longrightarrow> s' = s"
  by (auto simp: gas_copy_def bindE_Inr_iff Let_def case_prod_beta)

lemma forwardCallGas_Inr:
  assumes "forwardCallGas D s nm base = Inr (nm', cost, s')"
  shows "nm' = nm \<and> stack s \<noteq> []
     \<and> cost = base + callGas (gasTable D) (Gas s) base (last (stack s))
     \<and> s' = s\<lparr>stack := butlast (stack s) @ [callGas (gasTable D) (Gas s) base (last (stack s))]\<rparr>"
proof -
  from assms obtain requested where
    r: "data_back (stack s) 1 = Inr requested"
    and n: "nm' = nm"
    and c: "cost = base + callGas (gasTable D) (Gas s) base requested"
    and s': "s' = s\<lparr>stack := (stack s)[length (stack s) - 1 :=
                 callGas (gasTable D) (Gas s) base requested]\<rparr>"
    by (auto simp: forwardCallGas_def bindE_Inr_iff Let_def)
  from r have ne: "stack s \<noteq> []"
    by (auto simp: data_back_Inr)
  from r have l: "requested = last (stack s)"
    by (simp add: data_back_Inr last_conv_nth [OF ne])
  show ?thesis
    using n c s' ne update_top [OF ne] by (simp add: l)
qed

lemma forwardCallGas_Gas: "forwardCallGas D s nm base = Inr (nm', cost, s') \<Longrightarrow> Gas s' = Gas s"
  by (auto simp: forwardCallGas_def bindE_Inr_iff Let_def)

lemma calculateGasAndSize_Gas:
  "calculateGasAndSize D c op s = Inr (nm, cost, s') \<Longrightarrow> Gas s' = Gas s"
  unfolding calculateGasAndSize_def bindE_Inr_iff
  by (cases op)
     (auto simp: bindE_Inr_iff AddRefund_def gas_CALL_def gas_DELEGATECALL_def
           dest: gas_SUICIDE_frame gas_SSTORE_Gas forwardCallGas_Gas
                 gas_LOG_frame gas_mem_frame gas_copy_frame split: if_splits)

lemma call_branches:
  assumes "op = CALL \<or> op = CALLCODE \<or> op = DELEGATECALL \<or> op = STATICCALL"
    and "calculateGasAndSize D contract op s = Inr (newMemSize, cost, s')"
  shows "\<exists>nm base.
      (if op = CALL \<or> op = CALLCODE then base_CALL D op s else base_DELEGATECALL D s)
        = Inr (nm, base)
      \<and> forwardCallGas D s nm base = Inr (newMemSize, cost, s')"
  using assms
  by (auto simp: calculateGasAndSize_def gas_CALL_def gas_DELEGATECALL_def bindE_Inr_iff)

section \<open>Properties\<close>

text \<open>
  C1. For every triple (original, current, new) the post-EIP-1283 computation returns
  cost 200 and refund 0 when new = current; otherwise, when original = current, cost
  20000 if original = 0, else cost 5000 with refund 15000 exactly when new = 0;
  otherwise (dirty slot) cost 200, the refund being the sum of -15000 when
  original is nonzero and current is 0, +15000 when original is nonzero and new is 0,
  and, when original = new, +19800 if original = 0 and +4800 otherwise. In particular
  (0,0,5) gives cost 20000 and refund 0, and (5,3,5) gives cost 200 and refund 4800.
  The statement holds for all integers, hence for all 256-bit values.
\<close>

theorem eip1283sstoreGas_table:
  "eip1283sstoreGas original current new =
     (if new = current then (200, 0)
      else if original = current then
        (if original = 0 then (20000, 0)
         else (5000, if new = 0 then 15000 else 0))
      else (200,
        (if original \<noteq> 0 \<and> current = 0 then - 15000 else 0)
        + (if original \<noteq> 0 \<and> new = 0 then 15000 else 0)
        + (if original = new then (if original = 0 then 19800 else 4800) else 0)))
   \<and> eip1283sstoreGas 0 0 5 = (20000, 0)
   \<and> eip1283sstoreGas 5 3 5 = (200, 4800)"
  by (simp add: eip1283sstoreGas_def Let_def)

text \<open>
  C2. For CALL, CALLCODE, DELEGATECALL and STATICCALL, whenever the cost computation
  succeeds: with \<open>base\<close> the cost computed before forwarding, \<open>availableGas\<close> the
  contract's gas less \<open>base\<close>, and \<open>requestedGas\<close> the topmost stack item, the
  forwarded amount is \<open>availableGas * 63 div 64\<close> when the request exceeds that, and
  the request itself otherwise; the frame differs from the one before only in the
  topmost stack slot, which holds the forwarded amount, and the cost is \<open>base\<close> plus
  the forwarded amount. With 6300000 available, a request of 7000000 forwards
  \<open>6300000 * 63 div 64\<close> and a request of 1000 forwards 1000. (\<open>callGas\<close> is
  modelled from the spec.)
\<close>

theorem call_gas_forwarded:
  assumes "op = CALL \<or> op = CALLCODE \<or> op = DELEGATECALL \<or> op = STATICCALL"
    and "calculateGasAndSize D contract op s = Inr (newMemSize, cost, s')"
  shows "(\<exists>base.
      (if op = CALL \<or> op = CALLCODE then base_CALL D op s else base_DELEGATECALL D s)
        = Inr (newMemSize, base)
      \<and> stack s \<noteq> []
      \<and> (let availableGas = Gas s - base;
              requestedGas = last (stack s);
              forwarded = (if availableGas * 63 div 64 < requestedGas
                           then availableGas * 63 div 64 else requestedGas)
          in cost = base + forwarded
           \<and> s' = s\<lparr>stack := butlast (stack s) @ [forwarded]\<rparr>))
     \<and> callGas gt (b + 6300000) b 7000000 = 6300000 * 63 div 64
     \<and> callGas gt (b + 6300000) b 1000 = 1000"
proof -
  from call_branches [OF assms] obtain nm base where
    b: "(if op = CALL \<or> op = CALLCODE then base_CALL D op s else base_DELEGATECALL D s)
          = Inr (nm, base)"
    and f: "forwardCallGas D s nm base = Inr (newMemSize, cost, s')"
    by blast
  note r = forwardCallGas_Inr [OF f]
  have "(if op = CALL \<or> op = CALLCODE then base_CALL D op s else base_DELEGATECALL D s)
          = Inr (newMemSize, base)
      \<and> stack s \<noteq> []
      \<and> (let availableGas = Gas s - base;
              requestedGas = last (stack s);
              forwarded = (if availableGas * 63 div 64 < requestedGas
                           then availableGas * 63 div 64 else requestedGas)
          in cost = base + forwarded
           \<and> s' = s\<lparr>stack := butlast (stack s) @ [forwarded]\<rparr>)"
    using b r by (simp add: callGas_def Let_def)
  moreover have "callGas gt (b + 6300000) b 7000000 = 6300000 * 63 div 64"
    "callGas gt (b + 6300000) b 1000 = 1000"
    by (simp_all add: callGas_def Let_def)
  ultimately show ?thesis by blast
qed

theorem call_gas_forwarded_witness:
  "\<exists>nm cost s'.
     calculateGasAndSize D0 (contract0 []) CALL
       (vm0 False True True 6300700 [0, 0, 0, 0, 0, 7, 7000000]) = Inr (nm, cost, s')
     \<and> cost = 700 + 6201562
     \<and> stack s' = [0, 0, 0, 0, 0, 7, 6201562]"
proof -
  let ?s = "vm0 False True True 6300700 [0, 0, 0, 0, 0, 7, 7000000]"
  have "\<not> isl (calculateGasAndSize D0 (contract0 []) CALL ?s)"
    by code_simp
  then obtain nm cost s' where
    e: "calculateGasAndSize D0 (contract0 []) CALL ?s = Inr (nm, cost, s')"
    by (cases "calculateGasAndSize D0 (contract0 []) CALL ?s") auto
  have base: "base_CALL D0 CALL ?s = Inr (0, 700)"
    by code_simp
  have st: "stack ?s = [0, 0, 0, 0, 0, 7, 7000000]" and g: "Gas ?s = 6300700"
    by (simp_all add: vm0_def)
  from call_gas_forwarded [OF _ e, where gt = gasTable0 and b = 0] base
  have "cost = 700 + 6201562 \<and> stack s' = [0, 0, 0, 0, 0, 7, 6201562]"
    by (simp add: st g Let_def)
  with e show ?thesis by blast
qed

text \<open>
  C3. Within a frame the original value of an SSTORE is the one first recorded for the
  key, and distinct keys have entries of their own. The code keys the map of original
  values by the low 20 bytes of the storage key while it reads the current value under
  all 32 bytes. Evaluated on the concrete environment: slot 1 of the contract holds 5
  and slot \<open>2 ^ 160 + 1\<close> holds 0; the two keys differ as hashes and agree as
  addresses. A first SSTORE to slot 1 records 5; the second SSTORE, writing 7 to slot
  \<open>2 ^ 160 + 1\<close>, finds that entry and is priced with original 5, current 0:
  cost 200 and 15000 taken off the refund counter, where original 0 gives cost 20000
  and no refund.
\<close>

theorem original_value_map_truncates_key:
  "GetState db0 7 (BigToHash (2 ^ 160 + 1)) = 0
   \<and> BigToHash (2 ^ 160 + 1) \<noteq> BigToHash 1
   \<and> BigToAddress (2 ^ 160 + 1) = BigToAddress 1
   \<and> (case calculateGasAndSize D0 (contract0 []) SSTORE (vm0 False True True 100000 [5, 1]) of
        Inl e \<Rightarrow> False
      | Inr (nm1, cost1, s1) \<Rightarrow>
          originalSStoreMap s1 (BigToAddress 1) = Some 5
          \<and> (case calculateGasAndSize D0 (contract0 []) SSTORE
                     (s1\<lparr>stack := [7, 2 ^ 160 + 1]\<rparr>) of
               Inl e \<Rightarrow> False
             | Inr (nm2, cost2, s2) \<Rightarrow>
                 cost2 = 200
                 \<and> Refund (Db s2) = Refund (Db s1) - 15000
                 \<and> (cost2, Refund (Db s2) - Refund (Db s1)) = eip1283sstoreGas 5 0 7
                 \<and> eip1283sstoreGas 0 0 7 = (20000, 0)))"
  by code_simp

text \<open>
  C4. When the write protection check passes and the cost is computed, a cost above
  the remaining gas ends the frame with \<open>OutOfGasError\<close> and no gas left, in the
  frame as the cost computation left it: nothing is dispatched. Otherwise the whole
  cost is deducted, the remaining gas stays non-negative, and the step goes on to
  resize memory and dispatch. (\<open>UseGas\<close> is modelled from the spec.)
\<close>

theorem out_of_gas_consumes_all:
  assumes "checkStateMod D (GetOp D (Code contract) (pc s)) s = Inr False"
    and "calculateGasAndSize D contract (GetOp D (Code contract) (pc s)) s
           = Inr (newMemSize, cost, s1)"
  shows "if Gas s < cost
         then Run_loop D contract codehash (Suc n) s
                = Some (([], Some OutOfGasError), s1\<lparr>Gas := 0\<rparr>)
         else 0 \<le> Gas s - cost \<and>
              step D contract codehash s =
                execute D contract codehash (GetOp D (Code contract) (pc s))
                  (s1\<lparr>Gas := Gas s - cost, mem := Resize D (mem s1) (Uint64 newMemSize)\<rparr>)"
proof -
  have g: "Gas s1 = Gas s"
    using assms(2) by (rule calculateGasAndSize_Gas)
  show ?thesis
    using assms(1,2) by (simp add: step_def UseGas_def Let_def g)
qed

theorem out_of_gas_consumes_all_witness:
  "\<exists>s'. Run_loop D0 (contract0 [0x55]) 0 (Suc 0) (vm0 False True True 100 [5, 1])
           = Some (([], Some OutOfGasError), s')
       \<and> Gas s' = 0 \<and> stack s' = [5, 1]"
proof -
  let ?s = "vm0 False True True 100 [5, 1]"
  let ?c = "contract0 [0x55]"
  have op: "GetOp D0 (Code ?c) (pc ?s) = SSTORE"
    by code_simp
  have chk: "checkStateMod D0 (GetOp D0 (Code ?c) (pc ?s)) ?s = Inr False"
    by code_simp
  have "case calculateGasAndSize D0 ?c (GetOp D0 (Code ?c) (pc ?s)) ?s of
          Inl e \<Rightarrow> False | Inr (nm, cost, s1) \<Rightarrow> cost = 200 \<and> stack s1 = [5, 1]"
    by code_simp
  then obtain nm cost s1 where
    e: "calculateGasAndSize D0 ?c (GetOp D0 (Code ?c) (pc ?s)) ?s = Inr (nm, cost, s1)"
    and c: "cost = 200" and st: "stack s1 = [5, 1]"
    by (auto split: sum.splits)
  have g: "Gas ?s = 100"
    by (simp add: vm0_def)
  from out_of_gas_consumes_all [OF chk e, of 0 0] c
  have "Run_loop D0 ?c 0 (Suc 0) ?s = Some (([], Some OutOfGasError), s1\<lparr>Gas := 0\<rparr>)"
    by (simp add: g)
  then show ?thesis
    using st by simp
qed

text \<open>
  C5 (as amended). For every step executed while the read-only flag is set and the
  ECIP1045B fork rule holds at the current block, if the fetched opcode is
  state-modifying, or is CALL with a nonzero value operand in the third stack slot
  from the top, the frame ends with the write protection error and the frame is the
  one before the step: no cost was computed, no gas charged, no refund registered.
\<close>

theorem write_protection_before_cost:
  assumes "IsECIP1045B s" and "IsReadOnly s"
    and "op = GetOp D (Code contract) (pc s)"
    and "IsStateModifying D op \<or> (op = CALL \<and> (\<exists>v. data_back (stack s) 3 = Inr v \<and> v \<noteq> 0))"
  shows "Run_loop D contract codehash (Suc n) s = Some (([], Some errWriteProtection), s)"
proof -
  have "checkStateMod D op s = Inr True"
    using assms(1,2,4) by (auto simp: checkStateMod_def bindE_def BitLen_pos_iff)
  then show ?thesis
    using assms(3) by (simp add: step_def Let_def)
qed

theorem write_protection_before_cost_witness:
  "Run_loop D0 (contract0 [0x55]) 0 (Suc 0) (vm0 True True True 100000 [0, 1])
     = Some (([], Some errWriteProtection), vm0 True True True 100000 [0, 1])"
proof -
  let ?s = "vm0 True True True 100000 [0, 1]"
  have a: "IsECIP1045B ?s" and b: "IsReadOnly ?s"
    by (simp_all add: vm0_def)
  have c: "SSTORE = GetOp D0 (Code (contract0 [0x55])) (pc ?s)"
    by code_simp
  have d: "IsStateModifying D0 SSTORE"
    by code_simp
  show ?thesis
    using d by (intro write_protection_before_cost [OF a b c]) simp
qed

text \<open>
  The claim as stated fails where the read-only flag is set and the fork rule does not
  hold: the step of an SSTORE (state-modifying) that clears slot 1 goes on, with 5000
  gas charged and 15000 registered as refund.
\<close>

theorem write_protection_needs_fork_rule:
  "IsReadOnly (vm0 True False False 100000 [0, 1])
   \<and> GetOp D0 (Code (contract0 [0x55])) (pc (vm0 True False False 100000 [0, 1])) = SSTORE
   \<and> IsStateModifying D0 SSTORE
   \<and> (case step D0 (contract0 [0x55]) 0 (vm0 True False False 100000 [0, 1]) of
        Next s' \<Rightarrow> Gas s' = 95000 \<and> Refund (Db s') = 15000 \<and> pc s' = 1
      | Done ret err s' \<Rightarrow> False)"
  by code_simp

text \<open>
  C6. Whenever \<open>Run\<close> returns, with whatever result (a normal stop, RETURN, REVERT,
  a precompile, empty code, an error or a panic), the depth afterwards is the depth
  before: the body runs at depth plus one, and leaving it stores the depth before.
\<close>

theorem Run_restores_depth:
  assumes "Run D contract input fuel s = Some (r, s')"
  shows "Depth s' = Depth s
     \<and> (\<exists>s''. Run_body D contract input fuel (SetDepth (Depth s + 1) s) = Some (r, s'')
             \<and> s' = SetDepth (Depth s) s'')"
  using assms
  by (auto simp: Run_def SetDepth_def Let_def split: option.splits)

theorem Run_restores_depth_witness:
  "\<exists>s'. Run D0 (contract0 [0x60, 0x00, 0xff]) [] 10 (vm0 False True True 100000 [])
           = Some (([], None), s')
       \<and> Depth s' = 3"
proof -
  let ?run = "Run D0 (contract0 [0x60, 0x00, 0xff]) [] 10 (vm0 False True True 100000 [])"
  have "case ?run of None \<Rightarrow> False | Some (r, s') \<Rightarrow> r = ([], None)"
    by code_simp
  then obtain s' where e: "?run = Some (([], None), s')"
    by (auto split: option.splits)
  have "Depth (vm0 False True True 100000 []) = 3"
    by (simp add: vm0_def)
  with Run_restores_depth [OF e] have "Depth s' = 3"
    by simp
  with e show ?thesis by blast
qed

text \<open>
  C7. Before the EIP-1283 fork rule holds, an SSTORE whose base check passes, with a
  256-bit new value below the key on the stack, costs 20000 when the current value is
  zero and the new one is not, and 5000 in every other case; the refund counter of the
  state grows by 15000 when the current value is not zero and the new one is, and stays
  as it is in every other case; nothing else of the frame changes. The gas of the base
  check plays no part.
\<close>

theorem sstore_gas_before_eip1283:
  assumes "\<not> IsEIP1283 s"
    and "baseCheck D SSTORE (stack s) 0 = Inr g"
    and "stack s = rest @ [newValue, storageLoc]"
    and "0 \<le> newValue" and "newValue < 2 ^ 256"
  shows "let currentValue = GetState (Db s) (Address contract) (BigToHash storageLoc);
             cost = (if currentValue = 0 \<and> newValue \<noteq> 0 then 20000 else 5000);
             refund = (if currentValue \<noteq> 0 \<and> newValue = 0 then 15000 else 0);
             s' = s\<lparr>Db := (Db s)\<lparr>Refund := Refund (Db s) + refund\<rparr>\<rparr>
         in calculateGasAndSize D contract SSTORE s = Inr (0, cost, s')
          \<and> Refund (Db s') = Refund (Db s) + refund"
proof -
  have z: "BigToHash newValue = 0 \<longleftrightarrow> newValue = 0"
    using assms(4,5) by (rule BigToHash_eq_0_iff)
  show ?thesis
    using assms(1,2)
    by (simp add: calculateGasAndSize_def gas_SSTORE_def require_def assms(3) data_back_two
        bindE_def EmptyHash_def AddRefund_def Let_def z)
qed

theorem sstore_gas_before_eip1283_witness:
  "Refund (Db (vm0 False False False 100000 [0, 1])) = 0
   \<and> (\<exists>s'. calculateGasAndSize D0 (contract0 []) SSTORE (vm0 False False False 100000 [0, 1])
              = Inr (0, 5000, s')
          \<and> Refund (Db s') = 15000)"
proof -
  let ?s = "vm0 False False False 100000 [0, 1]"
  have a: "\<not> IsEIP1283 ?s" and c: "stack ?s = [] @ [0, 1]"
    by (simp_all add: vm0_def)
  have b: "baseCheck D0 SSTORE (stack ?s) 0 = Inr 0"
    by code_simp
  have d: "GetState (Db ?s) (Address (contract0 [])) (BigToHash 1) = 5"
    by code_simp
  have r: "Refund (Db ?s) = 0"
    by code_simp
  from sstore_gas_before_eip1283 [OF a b c, of "contract0 []"]
  have "calculateGasAndSize D0 (contract0 []) SSTORE ?s
          = Inr (0, 5000, ?s\<lparr>Db := (Db ?s)\<lparr>Refund := Refund (Db ?s) + 15000\<rparr>\<rparr>)"
    by (simp add: d Let_def)
  moreover have "Refund (Db (?s\<lparr>Db := (Db ?s)\<lparr>Refund := Refund (Db ?s) + 15000\<rparr>\<rparr>)) = 15000"
    by (simp add: r)
  ultimately show ?thesis
    using r by blast
qed



text \<open>
  C9. The return data buffer is cleared on entry and holds the output of a returning
  opcode after its step. The step of a returning opcode stores \<open>ret\<close>, the named
  result of \<open>Run\<close>, which is still \<open>nil\<close>; the output of the instruction function
  is dropped. Evaluated on the concrete environment: CALL is returning, its handler
  returns the byte 42, and after the step the buffer is empty.
\<close>

theorem returning_opcode_output_dropped:
  "IsReturning D0 CALL
   \<and> map_option (\<lambda>f. fst (fst (f (contract0 [0xf1])
                   (vm0 False True True 100000 [0, 0, 0, 0, 0, 7, 1000]))))
        (fn (jumpTable D0 CALL)) = Some [42]
   \<and> (case step D0 (contract0 [0xf1]) 0 (vm0 False True True 100000 [0, 0, 0, 0, 0, 7, 1000]) of
        Next s' \<Rightarrow> ReturnData s' = [] \<and> pc s' = 1 \<and> stack s' = [1]
      | Done ret err s' \<Rightarrow> False)"
  by code_simp

text \<open>
  C10. The write protection check reads the third stack item from the top for CALL
  before any stack validation has run. Evaluated on the concrete environment: in
  read-only mode under the fork rule, a frame whose code starts with CALL begins with
  an empty stack, CALL is not state-modifying, and the read panics; the base check,
  had it run first, would have reported the underflow.
\<close>

theorem write_protection_check_panics:
  "GetOp D0 (Code (contract0 [0xf1])) 0 = CALL
   \<and> \<not> IsStateModifying D0 CALL
   \<and> checkStateMod D0 CALL (vm0 True True True 100000 []) = Inl Panic
   \<and> baseCheck D0 CALL [] 0 = Inl StackUnderflow
   \<and> map_option (\<lambda>(r, s'). (r, Depth s', Gas s', stack s'))
        (Run D0 (contract0 [0xf1]) [] 10 (vm0 True True True 100000 []))
       = Some (([], Some Panic), 3, 100000, [])"
  by code_simp

end
